theory Spec2Isabelle
  imports Complex_Main "HOL-Library.Word"
begin

section \<open>Python values used by \<open>main.py\<close>\<close>

text \<open>
  The text typed into the form is a Python \<open>str\<close>: a sequence of Unicode code points.
  \<open>len\<close>, \<open>strip\<close> and \<open>split\<close> work on code points, so the text is a list of
  code points (natural numbers). Language codes, voice-variant tokens and messages are
  short strings that the script only compares, concatenates and tests for emptiness.
\<close>

type_synonym codepoint = nat
type_synonym pystr = "codepoint list"
type_synonym byte = "8 word"

text \<open>
  An exception \<open>e\<close> raised by a library; the script only ever looks at \<open>str(e)\<close>.
\<close>

datatype py_exception = Exception (str_of: string)

text \<open>
  Python's truth value of a variable that holds \<open>None\<close> or a \<open>str\<close>:
  \<open>None\<close> and the empty string are false.
\<close>

fun truthy :: "'a list option \<Rightarrow> bool" where
  "truthy None = False"
| "truthy (Some s) = (s \<noteq> [])"

text \<open>An f-string field \<open>{x}\<close> where \<open>x\<close> is \<open>None\<close> or a \<open>str\<close>.\<close>

fun fstr :: "string option \<Rightarrow> string" where
  "fstr None = ''None''"
| "fstr (Some s) = s"

text \<open>
  \<open>str.isspace\<close> on one code point (CPython's \<open>_PyUnicode_IsWhitespace\<close>): the
  characters that \<open>strip()\<close> and \<open>split()\<close> without arguments treat as whitespace.
\<close>

definition py_isspace :: "codepoint \<Rightarrow> bool" where
  "py_isspace c =
     ((9 \<le> c \<and> c \<le> 13) \<or> (28 \<le> c \<and> c \<le> 32) \<or> c = 133 \<or> c = 160 \<or> c = 5760 \<or>
      (8192 \<le> c \<and> c \<le> 8202) \<or> c = 8232 \<or> c = 8233 \<or> c = 8239 \<or> c = 8287 \<or>
      c = 12288)"

text \<open>\<open>s.strip()\<close>: drop the whitespace at both ends.\<close>

definition str_strip :: "pystr \<Rightarrow> pystr" where
  "str_strip s = rev (dropWhile py_isspace (rev (dropWhile py_isspace s)))"

text \<open>
  \<open>s.split()\<close>: the maximal runs of non-whitespace code points, in order. The first
  argument is the word being collected.
\<close>

fun split_from :: "pystr \<Rightarrow> pystr \<Rightarrow> pystr list" where
  "split_from w [] = (if w = [] then [] else [w])"
| "split_from w (c # cs) =
     (if py_isspace c then (if w = [] then split_from [] cs else w # split_from [] cs)
      else split_from (w @ [c]) cs)"

definition str_split :: "pystr \<Rightarrow> pystr list" where
  "str_split s = split_from [] s"

section \<open>The external libraries and the trace of a run\<close>

text \<open>
  The three libraries are parameters of the model. Each call returns a value or raises:
  \<^item> \<open>detect\<close> is \<open>langdetect.detect(text)\<close>;
  \<^item> \<open>translate source target text\<close> is
    \<open>GoogleTranslator(source=source, target=target).translate(text)\<close>;
  \<^item> \<open>synthesize text lang slow tld\<close> is \<open>gTTS(text=text, lang=lang, slow=slow, tld=tld)\<close>
    written to a buffer and read back; the script can hand it \<open>None\<close> as text;
  \<^item> \<open>languages\<close> is the dictionary returned by \<open>get_supported_languages()\<close>.
\<close>

record env =
  detect :: "pystr \<Rightarrow> py_exception + string"
  translate :: "string \<Rightarrow> string \<Rightarrow> pystr \<Rightarrow> py_exception + pystr"
  synthesize :: "pystr option \<Rightarrow> string \<Rightarrow> bool \<Rightarrow> string \<Rightarrow> py_exception + byte list"
  languages :: "string \<rightharpoonup> string"

text \<open>
  What a run does, in order: the calls to the libraries and the Streamlit elements it
  writes. A run that ends with an exception nobody catches ends with \<open>Uncaught\<close>.
\<close>

datatype event =
    Call_detect pystr
  | Call_translate string string pystr
  | Call_synthesize "pystr option" string bool string
  | St_error string
  | St_info string
  | St_success string
  | St_markdown string
  | St_translation_box "pystr option"
  | St_audio "byte list option"
  | St_metric_file_size rat
  | St_metric_output_language string
  | St_metric_duration rat
  | St_download_link "byte list" string
  | Uncaught string

section \<open>The pipeline functions\<close>

text \<open>\<open>detect_language\<close>: the bare \<open>except\<close> turns every failure into \<open>None\<close>.\<close>

definition detect_language :: "env \<Rightarrow> pystr \<Rightarrow> string option \<times> event list" where
  "detect_language env text =
     (case detect env text of Inr lang \<Rightarrow> Some lang | Inl e \<Rightarrow> None, [Call_detect text])"

text \<open>
  The first block of \<open>translate_text\<close>: the source language after detection. Nothing
  in it can raise.
\<close>

definition resolve_source_lang :: "env \<Rightarrow> pystr \<Rightarrow> string \<Rightarrow> string \<times> event list" where
  "resolve_source_lang env text source_lang =
     (if source_lang = ''auto'' then
        (case detect_language env text of
           (detected_lang, calls) \<Rightarrow>
             (case detected_lang of
                Some lang \<Rightarrow> if lang \<noteq> [] then lang else ''en''
              | None \<Rightarrow> ''en'',
              calls))
      else (source_lang, []))"

text \<open>
  \<open>translate_text\<close> returns the triple \<open>(translated, source_lang, error)\<close>, each
  component \<open>None\<close> or a value, with the calls it made. The \<open>try\<close> spans the whole
  body and its handler catches every \<open>Exception\<close>.
\<close>

type_synonym translation = "pystr option \<times> string option \<times> string option"

definition translate_text :: "env \<Rightarrow> pystr \<Rightarrow> string \<Rightarrow> string \<Rightarrow> translation \<times> event list" where
  "translate_text env text source_lang target_lang =
     (case resolve_source_lang env text source_lang of
        (source_lang, calls) \<Rightarrow>
          if source_lang = target_lang then ((Some text, Some source_lang, None), calls)
          else
            let target_lang =
                  (if target_lang = ''zh-cn'' then ''zh-CN''
                   else if target_lang = ''zh-tw'' then ''zh-TW''
                   else target_lang)
            in (case translate env source_lang target_lang text of
                  Inr translated \<Rightarrow> (Some translated, Some source_lang, None)
                | Inl e \<Rightarrow> (None, None, Some (str_of e)),
                calls @ [Call_translate source_lang target_lang text]))"

text \<open>
  \<open>convert_text_to_speech\<close> returns \<open>(audio_data, file_size, error)\<close>. The division
  \<open>len(audio_data) / 1024\<close> is Python's true division; dividing by a power of two is
  exact in binary floating point for every length below \<open>2^53\<close>, so the size is a
  rational number here.
\<close>

type_synonym speech = "byte list option \<times> rat option \<times> string option"

definition convert_text_to_speech ::
    "env \<Rightarrow> pystr option \<Rightarrow> string \<Rightarrow> bool \<Rightarrow> string \<Rightarrow> speech \<times> event list" where
  "convert_text_to_speech env text lang slow tld =
     (case synthesize env text lang slow tld of
        Inr audio_data \<Rightarrow>
          (Some audio_data, Some (of_nat (length audio_data) / 1024), None)
      | Inl e \<Rightarrow> (None, None, Some (str_of e)),
      [Call_synthesize text lang slow tld])"

section \<open>The form and the handler of the convert button\<close>

datatype accent =
  US_English | UK_English | Canadian_English | Australian_English | Indian_English

fun accent_options :: "accent \<Rightarrow> string" where
  "accent_options US_English = ''com''"
| "accent_options UK_English = ''co.uk''"
| "accent_options Canadian_English = ''ca''"
| "accent_options Australian_English = ''com.au''"
| "accent_options Indian_English = ''co.in''"

text \<open>
  The widgets' values in one run of the script. \<open>selected_source_lang\<close> is the code
  of the "From Language" box (read only when translation is enabled);
  \<open>selected_accent\<close> is the last choice made in the "Accent" box, which the page shows
  only while the output language is English.
\<close>

record form =
  enable_translation :: bool
  selected_source_lang :: string
  lang_code :: string
  selected_accent :: accent
  slow_speech :: bool
  text_input :: pystr
  convert_button :: bool

text \<open>The sidebar's \<open>tld\<close>.\<close>

definition sidebar_tld :: "form \<Rightarrow> string" where
  "sidebar_tld f = (if lang_code f = ''en'' then accent_options (selected_accent f) else ''com'')"

definition char_count :: "form \<Rightarrow> nat" where
  "char_count f = length (text_input f)"

text \<open>
  Step 1 of the handler: the text to speak, with what the step called and displayed.
\<close>

definition translation_step :: "env \<Rightarrow> form \<Rightarrow> pystr option \<times> event list" where
  "translation_step env f =
     (if enable_translation f then
        (case translate_text env (text_input f) (selected_source_lang f) (lang_code f) of
           ((translated_text, detected_lang, trans_error), calls) \<Rightarrow>
             if truthy trans_error then
               (Some (text_input f),
                calls @ [St_error (''Translation error: '' @ fstr trans_error),
                         St_info ''Converting original text to speech instead...''])
             else
               (translated_text,
                calls @ [St_success ''Translation successful!'',
                         St_markdown ''**Translated Text:**'',
                         St_translation_box translated_text]))
      else (Some (text_input f), []))"

text \<open>
  The three metrics and the download link. Formatting \<open>None\<close> with \<open>:.2f\<close> raises
  \<open>TypeError\<close>, and \<open>None\<close> has no \<open>split\<close>. The numbers are the values handed to the
  formatting, which is presentation.
\<close>

definition file_info :: "env \<Rightarrow> form \<Rightarrow> pystr option \<Rightarrow> byte list option \<Rightarrow> rat option \<Rightarrow> event list" where
  "file_info env f translated_text audio_data file_size =
     (case file_size of
        None \<Rightarrow> [Uncaught ''TypeError'']
      | Some kb \<Rightarrow>
          [St_metric_file_size kb,
           St_metric_output_language
             (case languages env (lang_code f) of Some name \<Rightarrow> name | None \<Rightarrow> lang_code f)] @
          (case translated_text of
             None \<Rightarrow> [Uncaught ''AttributeError'']
           | Some t \<Rightarrow>
               (let word_count = length (str_split t) in
                  St_metric_duration (of_nat word_count * (1 / 2)) #
                  (case audio_data of
                     None \<Rightarrow> [Uncaught ''TypeError'']
                   | Some a \<Rightarrow> [St_download_link a ''audio.mp3'']))))"

text \<open>Step 2 of the handler.\<close>

definition speech_step :: "env \<Rightarrow> form \<Rightarrow> pystr option \<Rightarrow> event list" where
  "speech_step env f translated_text =
     (case convert_text_to_speech env translated_text (lang_code f) (slow_speech f)
             (sidebar_tld f) of
        ((audio_data, file_size, error), calls) \<Rightarrow>
          calls @
          (if truthy error then
             [St_error (''Error: '' @ fstr error),
              St_info ''Tip: Make sure you have an internet connection. gTTS requires internet to work.'']
           else
             [St_success ''Conversion successful!'', St_audio audio_data] @
             file_info env f translated_text audio_data file_size))"

text \<open>The block under \<open>if convert_button:\<close>.\<close>

definition convert :: "env \<Rightarrow> form \<Rightarrow> event list" where
  "convert env f =
     (if convert_button f then
        if text_input f = [] \<or> str_strip (text_input f) = [] then
          [St_error ''Please enter some text to convert!'']
        else if char_count f > 5000 then
          [St_error ''Text is too long. Please reduce to 5000 characters or less.'']
        else
          (case translation_step env f of
             (translated_text, shown) \<Rightarrow> shown @ speech_step env f translated_text)
      else [])"

section \<open>Vocabulary of the properties\<close>

text \<open>The events that are calls to a library.\<close>

fun is_call :: "event \<Rightarrow> bool" where
  "is_call (Call_detect t) = True"
| "is_call (Call_translate s t x) = True"
| "is_call (Call_synthesize t l s v) = True"
| "is_call e = False"

text \<open>
  The specification's table of target codes that the translation provider wants
  written differently; a code that is not in the table goes to the provider as it is.
\<close>

definition exception_table :: "(string \<times> string) list" where
  "exception_table = [(''zh-cn'', ''zh-CN''), (''zh-tw'', ''zh-TW'')]"

definition provider_target :: "string \<Rightarrow> string" where
  "provider_target code = (case map_of exception_table code of Some p \<Rightarrow> p | None \<Rightarrow> code)"

subsection \<open>Concrete libraries and forms\<close>

text \<open>
  Libraries that answer: detection says French, the translation of anything is
  "Hello", the audio is three bytes (and \<open>gTTS\<close> refuses \<open>None\<close>, as its assertion
  does).
\<close>

definition env_ok :: env where
  "env_ok =
     \<lparr>detect = (\<lambda>t. Inr ''fr''),
      translate = (\<lambda>s t x. Inr [72, 101, 108, 108, 111]),
      synthesize = (\<lambda>t l s v. case t of None \<Rightarrow> Inl (Exception ''No text to speak'')
                                | Some x \<Rightarrow> Inr [73, 68, 51]),
      languages = [''en'' \<mapsto> ''English'', ''fr'' \<mapsto> ''French'']\<rparr>"

text \<open>The same, with a translation provider that raises an exception of message \<open>m\<close>.\<close>

definition env_translate_raises :: "string \<Rightarrow> env" where
  "env_translate_raises m = env_ok\<lparr>translate := (\<lambda>s t x. Inl (Exception m))\<rparr>"


text \<open>"Bonjour", to be translated from the detected language to English.\<close>

definition form_bonjour :: form where
  "form_bonjour =
     \<lparr>enable_translation = True, selected_source_lang = ''auto'', lang_code = ''en'',
      selected_accent = UK_English, slow_speech = False,
      text_input = [66, 111, 110, 106, 111, 117, 114], convert_button = True\<rparr>"

text \<open>"Hello world", spoken in English without translation.\<close>

definition form_hello :: form where
  "form_hello =
     \<lparr>enable_translation = False, selected_source_lang = ''auto'', lang_code = ''en'',
      selected_accent = US_English, slow_speech = False,
      text_input = [72, 101, 108, 108, 111, 32, 119, 111, 114, 108, 100],
      convert_button = True\<rparr>"

text \<open>A space, a tab and a newline.\<close>

definition form_blank :: form where
  "form_blank = form_hello\<lparr>text_input := [32, 9, 10]\<rparr>"

text \<open>5001 letters, and 5001 spaces.\<close>

definition form_long :: form where
  "form_long = form_bonjour\<lparr>text_input := replicate 5001 97\<rparr>"

definition form_long_blank :: form where
  "form_long_blank = form_bonjour\<lparr>text_input := replicate 5001 32\<rparr>"

text \<open>
  "Hello world" spoken in French, after "UK English" had been chosen in the accent box
  while the output language was English.
\<close>

definition form_french :: form where
  "form_french = form_hello\<lparr>lang_code := ''fr'', selected_accent := UK_English\<rparr>"

section \<open>Validation\<close>

text \<open>
  \<open>not text_input.strip()\<close> holds exactly when every code point of the text is
  whitespace (the empty text included).
\<close>

lemma str_strip_Nil_iff: "str_strip s = [] \<longleftrightarrow> list_all py_isspace s"
proof
  assume "str_strip s = []"
  then have "dropWhile py_isspace (rev (dropWhile py_isspace s)) = []"
    by (simp add: str_strip_def)
  then have a: "\<forall>x\<in>set (dropWhile py_isspace s). py_isspace x"
    by simp
  have "dropWhile py_isspace s = []"
  proof (rule ccontr)
    assume n: "dropWhile py_isspace s \<noteq> []"
    then have "\<not> py_isspace (hd (dropWhile py_isspace s))"
      by (rule hd_dropWhile)
    moreover have "hd (dropWhile py_isspace s) \<in> set (dropWhile py_isspace s)"
      using n by simp
    ultimately show False using a by blast
  qed
  then show "list_all py_isspace s"
    by (simp add: list_all_iff)
next
  assume "list_all py_isspace s"
  then show "str_strip s = []"
    by (auto simp: str_strip_def list_all_iff dest: set_dropWhileD)
qed

text \<open>
  C2. A submission (the button is pressed) whose text is empty or only whitespace, or
  longer than 5000 characters, ends at validation: the run is one error message, and it
  calls no library at all, neither the translator nor the synthesizer.
\<close>

theorem validation_stops_before_any_call:
  assumes "convert_button f"
    and "list_all py_isspace (text_input f) \<or> 5000 < char_count f"
  shows "(convert env f = [St_error ''Please enter some text to convert!''] \<or>
          convert env f =
            [St_error ''Text is too long. Please reduce to 5000 characters or less.''])
         \<and> filter is_call (convert env f) = []"
  using assms by (auto simp: convert_def str_strip_Nil_iff)

theorem validation_stops_before_any_call_witness:
  "convert env_ok form_blank = [St_error ''Please enter some text to convert!''] \<and>
   filter is_call (convert env_ok form_blank) = [] \<and>
   convert env_ok form_long =
     [St_error ''Text is too long. Please reduce to 5000 characters or less.''] \<and>
   filter is_call (convert env_ok form_long) = []"
  using validation_stops_before_any_call [of form_blank env_ok]
    validation_stops_before_any_call [of form_long env_ok]
  by (simp add: form_blank_def form_long_def form_hello_def form_bonjour_def convert_def
      char_count_def str_strip_Nil_iff py_isspace_def list_all_iff)

text \<open>
  C10. The handler tests emptiness before length: a text that is only whitespace and
  longer than 5000 characters gets the empty-text error, and the length error is not
  among what the run reports.
\<close>

theorem empty_check_precedes_length_check:
  assumes "convert_button f"
    and "list_all py_isspace (text_input f)"
    and "5000 < char_count f"
  shows "convert env f = [St_error ''Please enter some text to convert!''] \<and>
         St_error ''Text is too long. Please reduce to 5000 characters or less.''
           \<notin> set (convert env f)"
  using assms by (simp add: convert_def str_strip_Nil_iff)

theorem empty_check_precedes_length_check_witness:
  "convert_button form_long_blank \<and> list_all py_isspace (text_input form_long_blank) \<and>
   5000 < char_count form_long_blank \<and>
   convert env_ok form_long_blank = [St_error ''Please enter some text to convert!''] \<and>
   St_error ''Text is too long. Please reduce to 5000 characters or less.''
     \<notin> set (convert env_ok form_long_blank)"
proof -
  have b: "convert_button form_long_blank"
    by (simp add: form_long_blank_def form_bonjour_def)
  have w: "list_all py_isspace (text_input form_long_blank)"
    by (simp add: form_long_blank_def list_all_iff py_isspace_def)
  have l: "5000 < char_count form_long_blank"
    by (simp add: form_long_blank_def char_count_def)
  show ?thesis
    using b w l empty_check_precedes_length_check [OF b w l, of env_ok] by simp
qed

section \<open>The translator\<close>

lemma resolve_source_lang_calls:
  "snd (resolve_source_lang env text source_lang) =
     (if source_lang = ''auto'' then [Call_detect text] else [])"
  by (simp add: resolve_source_lang_def detect_language_def)



text \<open>
  C3. When the source language after detection equals the target language,
  \<open>translate_text\<close> returns the text as it is, with that language code and no error;
  the only call it can have made is the detection, never the translation provider.
\<close>

theorem same_language_short_circuit:
  assumes "fst (resolve_source_lang env text source_lang) = target_lang"
  shows "translate_text env text source_lang target_lang =
           ((Some text, Some target_lang, None),
            if source_lang = ''auto'' then [Call_detect text] else []) \<and>
         (\<forall>s t x. Call_translate s t x \<notin> set (snd (translate_text env text source_lang target_lang)))"
proof (cases "resolve_source_lang env text source_lang")
  case (Pair r c)
  with assms have r: "r = target_lang" by simp
  from Pair resolve_source_lang_calls [of env "text" source_lang]
  have c: "c = (if source_lang = ''auto'' then [Call_detect text] else [])" by simp
  from Pair r have "translate_text env text source_lang target_lang =
      ((Some text, Some target_lang, None), c)"
    by (simp add: translate_text_def)
  with c show ?thesis by simp
qed

theorem same_language_short_circuit_witness:
  "fst (resolve_source_lang env_ok [66, 111, 110, 106, 111, 117, 114] ''auto'') = ''fr'' \<and>
   translate_text env_ok [66, 111, 110, 106, 111, 117, 114] ''auto'' ''fr'' =
     ((Some [66, 111, 110, 106, 111, 117, 114], Some ''fr'', None),
      [Call_detect [66, 111, 110, 106, 111, 117, 114]]) \<and>
   translate_text env_ok [72, 105] ''en'' ''en'' = ((Some [72, 105], Some ''en'', None), [])"
proof -
  have a: "fst (resolve_source_lang env_ok [66, 111, 110, 106, 111, 117, 114] ''auto'') = ''fr''"
    by (simp add: resolve_source_lang_def detect_language_def env_ok_def)
  have b: "fst (resolve_source_lang env_ok [72, 105] ''en'') = ''en''"
    by (simp add: resolve_source_lang_def)
  show ?thesis
    using a same_language_short_circuit [OF a] same_language_short_circuit [OF b]
    by simp
qed



text \<open>
  C5. When the translation provider is called, its target code is the one the
  specification's table gives: "zh-cn" becomes "zh-CN", "zh-tw" becomes "zh-TW", and
  every other code is passed as it is. The source code and the text are not changed.
\<close>

theorem target_code_rewritten_by_table:
  assumes "fst (resolve_source_lang env text source_lang) \<noteq> target_lang"
  shows "snd (translate_text env text source_lang target_lang) =
           snd (resolve_source_lang env text source_lang) @
           [Call_translate (fst (resolve_source_lang env text source_lang))
              (provider_target target_lang) text] \<and>
         provider_target ''zh-cn'' = ''zh-CN'' \<and> provider_target ''zh-tw'' = ''zh-TW'' \<and>
         (target_lang \<noteq> ''zh-cn'' \<and> target_lang \<noteq> ''zh-tw'' \<longrightarrow>
            provider_target target_lang = target_lang)"
  using assms
  by (cases "resolve_source_lang env text source_lang")
     (auto simp: translate_text_def provider_target_def exception_table_def Let_def)

theorem target_code_rewritten_by_table_witness:
  "fst (resolve_source_lang env_ok [72, 105] ''en'') \<noteq> ''zh-cn'' \<and>
   snd (translate_text env_ok [72, 105] ''en'' ''zh-cn'') =
     [Call_translate ''en'' ''zh-CN'' [72, 105]] \<and>
   snd (translate_text env_ok [72, 105] ''en'' ''zh-tw'') =
     [Call_translate ''en'' ''zh-TW'' [72, 105]] \<and>
   snd (translate_text env_ok [72, 105] ''en'' ''fr'') =
     [Call_translate ''en'' ''fr'' [72, 105]] \<and>
   provider_target ''fr'' = ''fr''"
proof -
  have r: "resolve_source_lang env_ok [72, 105] ''en'' = (''en'', [])"
    by (simp add: resolve_source_lang_def)
  have a: "fst (resolve_source_lang env_ok [72, 105] ''en'') \<noteq> ''zh-cn''"
    by (simp add: r)
  have b: "fst (resolve_source_lang env_ok [72, 105] ''en'') \<noteq> ''zh-tw''"
    by (simp add: r)
  have c: "fst (resolve_source_lang env_ok [72, 105] ''en'') \<noteq> ''fr''"
    by (simp add: r)
  from target_code_rewritten_by_table [OF a] target_code_rewritten_by_table [OF b]
    target_code_rewritten_by_table [OF c] a r
  show ?thesis by simp
qed


section \<open>What the handler hands to the synthesizer\<close>

lemma translate_text_calls:
  "snd (translate_text env text source_lang target_lang) =
     snd (resolve_source_lang env text source_lang) @
     (if fst (resolve_source_lang env text source_lang) = target_lang then []
      else [Call_translate (fst (resolve_source_lang env text source_lang))
              (if target_lang = ''zh-cn'' then ''zh-CN''
               else if target_lang = ''zh-tw'' then ''zh-TW'' else target_lang) text])"
  by (cases "resolve_source_lang env text source_lang")
     (simp add: translate_text_def Let_def)

lemma translate_text_no_synthesis:
  "Call_synthesize a b c d \<notin> set (snd (translate_text env text source_lang target_lang))"
  by (simp add: translate_text_calls resolve_source_lang_calls)

lemma translation_step_no_synthesis:
  "Call_synthesize a b c d \<notin> set (snd (translation_step env f))"
proof (cases "enable_translation f")
  case False
  then show ?thesis by (simp add: translation_step_def)
next
  case True
  obtain tr dl er calls where
    t: "translate_text env (text_input f) (selected_source_lang f) (lang_code f) =
          ((tr, dl, er), calls)"
    by (metis prod_cases3 surj_pair)
  then have "Call_synthesize a b c d \<notin> set calls"
    using translate_text_no_synthesis
      [of a b c d env "text_input f" "selected_source_lang f" "lang_code f"]
    by simp
  with True t show ?thesis
    by (simp add: translation_step_def)
qed

lemma file_info_no_synthesis:
  "Call_synthesize a b c d \<notin> set (file_info env f tt ad fs)"
  by (simp add: file_info_def Let_def split: option.split)

lemma speech_step_synthesis:
  assumes "Call_synthesize a b c d \<in> set (speech_step env f tt)"
  shows "a = tt \<and> b = lang_code f \<and> c = slow_speech f \<and> d = sidebar_tld f"
proof -
  obtain ad fs er calls where
    s: "convert_text_to_speech env tt (lang_code f) (slow_speech f) (sidebar_tld f) =
          ((ad, fs, er), calls)"
    by (metis prod_cases3 surj_pair)
  then have c: "calls = [Call_synthesize tt (lang_code f) (slow_speech f) (sidebar_tld f)]"
    by (auto simp: convert_text_to_speech_def)
  from assms s c file_info_no_synthesis [of a b c d env f tt ad fs]
  show ?thesis
    by (auto simp: speech_step_def split: if_splits)
qed

lemma speech_step_starts_with_call:
  "\<exists>rest. speech_step env f tt =
     Call_synthesize tt (lang_code f) (slow_speech f) (sidebar_tld f) # rest"
  by (simp add: speech_step_def convert_text_to_speech_def split: sum.split)

lemma convert_valid:
  assumes "convert_button f" and "\<not> list_all py_isspace (text_input f)"
    and "char_count f \<le> 5000"
  shows "convert env f =
           snd (translation_step env f) @ speech_step env f (fst (translation_step env f))"
proof -
  from assms(2) have "text_input f \<noteq> []" by auto
  with assms show ?thesis
    by (simp add: convert_def str_strip_Nil_iff case_prod_beta)
qed

lemma convert_synthesis:
  assumes "Call_synthesize a b c d \<in> set (convert env f)"
  shows "a = fst (translation_step env f) \<and> b = lang_code f \<and> c = slow_speech f \<and>
         d = sidebar_tld f"
proof -
  from assms have
    "Call_synthesize a b c d \<in> set (snd (translation_step env f)) \<or>
     Call_synthesize a b c d \<in> set (speech_step env f (fst (translation_step env f)))"
    by (auto simp: convert_def case_prod_beta split: if_splits)
  with translation_step_no_synthesis [of a b c d env f]
  have "Call_synthesize a b c d \<in> set (speech_step env f (fst (translation_step env f)))"
    by simp
  then show ?thesis by (rule speech_step_synthesis)
qed

text \<open>
  C6. When the output language is not "en", every call of the synthesizer has the
  output language and the voice variant "com", whatever the accent box held.
\<close>

theorem voice_variant_default_unless_english:
  assumes "lang_code f \<noteq> ''en''"
    and "Call_synthesize spoken lang slow tld \<in> set (convert env f)"
  shows "lang = lang_code f \<and> tld = ''com''"
  using assms convert_synthesis [of spoken lang slow tld env f]
  by (simp add: sidebar_tld_def)

theorem voice_variant_default_unless_english_witness:
  "lang_code form_french \<noteq> ''en'' \<and> selected_accent form_french = UK_English \<and>
   Call_synthesize (Some [72, 101, 108, 108, 111, 32, 119, 111, 114, 108, 100]) ''fr'' False ''com''
     \<in> set (convert env_ok form_french)"
proof -
  have a: "lang_code form_french \<noteq> ''en''"
    by (simp add: form_french_def form_hello_def)
  have b: "Call_synthesize (Some [72, 101, 108, 108, 111, 32, 119, 111, 114, 108, 100]) ''fr''
             False (sidebar_tld form_french) \<in> set (convert env_ok form_french)"
    by (simp add: form_french_def form_hello_def convert_def char_count_def str_strip_def
        py_isspace_def translation_step_def speech_step_def convert_text_to_speech_def
        env_ok_def)
  from voice_variant_default_unless_english [OF a b] a b
  show ?thesis by (simp add: form_french_def form_hello_def)
qed

section \<open>Words\<close>

text \<open>
  \<open>split_from\<close> keeps the code points that are not whitespace, in order, and none of
  its words is empty.
\<close>

lemma concat_split_from:
  "concat (split_from w s) = w @ filter (\<lambda>c. \<not> py_isspace c) s"
  by (induction s arbitrary: w) auto

lemma split_from_nonempty: "x \<in> set (split_from w s) \<Longrightarrow> x \<noteq> []"
  by (induction s arbitrary: w) (auto split: if_splits)


section \<open>What a successful synthesis reports\<close>



section \<open>A translation that fails\<close>

text \<open>
  When \<open>translate_text\<close> returns an error with a message that is not empty, the
  handler shows it, says that it converts the original text, and calls the synthesizer
  with the text of the form, the output language and the sidebar's voice variant.
\<close>

lemma translation_error_falls_back:
  assumes "convert_button f" and "\<not> list_all py_isspace (text_input f)"
    and "char_count f \<le> 5000" and "enable_translation f"
    and "translate_text env (text_input f) (selected_source_lang f) (lang_code f) =
           ((None, None, Some message), calls)"
    and "message \<noteq> []"
  shows "\<exists>rest. convert env f =
           calls @
           [St_error (''Translation error: '' @ message),
            St_info ''Converting original text to speech instead...'',
            Call_synthesize (Some (text_input f)) (lang_code f) (slow_speech f)
              (sidebar_tld f)] @ rest"
proof -
  from assms(4,5,6) have t: "translation_step env f =
      (Some (text_input f),
       calls @ [St_error (''Translation error: '' @ message),
                St_info ''Converting original text to speech instead...''])"
    by (simp add: translation_step_def)
  from speech_step_starts_with_call [of env f "Some (text_input f)"]
  obtain rest where "speech_step env f (Some (text_input f)) =
      Call_synthesize (Some (text_input f)) (lang_code f) (slow_speech f) (sidebar_tld f) # rest"
    by blast
  with t convert_valid [OF assms(1,2,3), of env] show ?thesis by simp
qed

text \<open>
  C1. The handler decides with \<open>if trans_error:\<close>, and the empty string is false in
  Python. When the translation provider raises an exception whose \<open>str\<close> is empty,
  \<open>translate_text\<close> returns \<open>(None, None, '')\<close>, the handler takes the branch of a
  successful translation, and the synthesizer is called with \<open>None\<close> instead of the
  text of the form; no translation error is shown. The run below is that of "Bonjour",
  to be translated from the detected language to English.
\<close>

theorem empty_error_message_defeats_fallback:
  "translate_text (env_translate_raises []) (text_input form_bonjour)
     (selected_source_lang form_bonjour) (lang_code form_bonjour) =
     ((None, None, Some []),
      [Call_detect [66, 111, 110, 106, 111, 117, 114],
       Call_translate ''fr'' ''en'' [66, 111, 110, 106, 111, 117, 114]]) \<and>
   convert (env_translate_raises []) form_bonjour =
     [Call_detect [66, 111, 110, 106, 111, 117, 114],
      Call_translate ''fr'' ''en'' [66, 111, 110, 106, 111, 117, 114],
      St_success ''Translation successful!'',
      St_markdown ''**Translated Text:**'',
      St_translation_box None,
      Call_synthesize None ''en'' False ''co.uk'',
      St_error ''Error: No text to speak'',
      St_info ''Tip: Make sure you have an internet connection. gTTS requires internet to work.'']"
proof -
  have t: "translate_text (env_translate_raises []) [66, 111, 110, 106, 111, 117, 114]
             ''auto'' ''en'' =
     ((None, None, Some []),
      [Call_detect [66, 111, 110, 106, 111, 117, 114],
       Call_translate ''fr'' ''en'' [66, 111, 110, 106, 111, 117, 114]])"
    by (simp add: translate_text_def resolve_source_lang_def detect_language_def
        env_translate_raises_def env_ok_def)
  have s: "translation_step (env_translate_raises []) form_bonjour =
      (None,
       [Call_detect [66, 111, 110, 106, 111, 117, 114],
        Call_translate ''fr'' ''en'' [66, 111, 110, 106, 111, 117, 114],
        St_success ''Translation successful!'',
        St_markdown ''**Translated Text:**'',
        St_translation_box None])"
    using t by (simp add: translation_step_def form_bonjour_def)
  have p: "speech_step (env_translate_raises []) form_bonjour None =
      [Call_synthesize None ''en'' False ''co.uk'',
       St_error ''Error: No text to speak'',
       St_info ''Tip: Make sure you have an internet connection. gTTS requires internet to work.'']"
    by (simp add: speech_step_def convert_text_to_speech_def sidebar_tld_def
        form_bonjour_def env_translate_raises_def env_ok_def)
  have v: "convert_button form_bonjour" "\<not> list_all py_isspace (text_input form_bonjour)"
    "char_count form_bonjour \<le> 5000"
    by (simp_all add: form_bonjour_def char_count_def py_isspace_def)
  from convert_valid [OF v, of "env_translate_raises []"] s p t
  show ?thesis by (simp add: form_bonjour_def)
qed

text \<open>The same form with a provider whose exception has a message.\<close>

lemma nonempty_error_message_falls_back:
  "convert (env_translate_raises ''Request failed'') form_bonjour =
     [Call_detect [66, 111, 110, 106, 111, 117, 114],
      Call_translate ''fr'' ''en'' [66, 111, 110, 106, 111, 117, 114],
      St_error ''Translation error: Request failed'',
      St_info ''Converting original text to speech instead...'',
      Call_synthesize (Some [66, 111, 110, 106, 111, 117, 114]) ''en'' False ''co.uk'',
      St_success ''Conversion successful!'',
      St_audio (Some [73, 68, 51]),
      St_metric_file_size (3 / 1024),
      St_metric_output_language ''English'',
      St_metric_duration (1 / 2),
      St_download_link [73, 68, 51] ''audio.mp3'']"
proof -
  have t: "translate_text (env_translate_raises ''Request failed'')
             [66, 111, 110, 106, 111, 117, 114] ''auto'' ''en'' =
     ((None, None, Some ''Request failed''),
      [Call_detect [66, 111, 110, 106, 111, 117, 114],
       Call_translate ''fr'' ''en'' [66, 111, 110, 106, 111, 117, 114]])"
    by (simp add: translate_text_def resolve_source_lang_def detect_language_def
        env_translate_raises_def env_ok_def)
  have s: "translation_step (env_translate_raises ''Request failed'') form_bonjour =
      (Some [66, 111, 110, 106, 111, 117, 114],
       [Call_detect [66, 111, 110, 106, 111, 117, 114],
        Call_translate ''fr'' ''en'' [66, 111, 110, 106, 111, 117, 114],
        St_error ''Translation error: Request failed'',
        St_info ''Converting original text to speech instead...''])"
    using t by (simp add: translation_step_def form_bonjour_def)
  have w: "str_split [66, 111, 110, 106, 111, 117, 114] = [[66, 111, 110, 106, 111, 117, 114]]"
    by (simp add: str_split_def py_isspace_def)
  have p: "speech_step (env_translate_raises ''Request failed'') form_bonjour
             (Some [66, 111, 110, 106, 111, 117, 114]) =
      [Call_synthesize (Some [66, 111, 110, 106, 111, 117, 114]) ''en'' False ''co.uk'',
       St_success ''Conversion successful!'',
       St_audio (Some [73, 68, 51]),
       St_metric_file_size (3 / 1024),
       St_metric_output_language ''English'',
       St_metric_duration (1 / 2),
       St_download_link [73, 68, 51] ''audio.mp3'']"
    using w
    by (simp add: speech_step_def convert_text_to_speech_def sidebar_tld_def file_info_def
        form_bonjour_def env_translate_raises_def env_ok_def)
  have v: "convert_button form_bonjour" "\<not> list_all py_isspace (text_input form_bonjour)"
    "char_count form_bonjour \<le> 5000"
    by (simp_all add: form_bonjour_def char_count_def py_isspace_def)
  from convert_valid [OF v, of "env_translate_raises ''Request failed''"] s p
  show ?thesis by simp
qed

end
